theory Spec2Isabelle
  imports Main "HOL-Library.Sublist" "HOL-Library.AList"
begin

section \<open>JavaScript values and errors\<close>

text \<open>
  The few JavaScript values the installer and the capability shim look at: a property that
  may be missing (\<open>undefined\<close>), \<open>null\<close>, a boolean, a number, a string, or some
  object. Numbers are integers here: exit codes and flags.
\<close>

datatype jsval = JUndefined | JNull | JBool bool | JNum int | JStr string | JObject

text \<open>What \<open>!v\<close> and \<open>if (v)\<close> test.\<close>

fun truthy :: "jsval \<Rightarrow> bool" where
  "truthy JUndefined = False"
| "truthy JNull = False"
| "truthy (JBool b) = b"
| "truthy (JNum n) = (n \<noteq> 0)"
| "truthy (JStr s) = (s \<noteq> [])"
| "truthy JObject = True"

text \<open>
  A thrown error, with the two properties the code reads: \<open>err.code\<close> (a string such as
  \<open>ENOENT\<close> for a file-system error, the numeric exit code for a failed child process,
  missing otherwise) and \<open>err.status\<close> (a number, or missing: \<open>None\<close> stands for
  \<open>undefined\<close> and \<open>null\<close>, which both differ from 0 under \<open>!=\<close>).
\<close>

record js_error =
  code :: jsval
  status :: "int option"
  message :: string

section \<open>Platform mapping\<close>

text \<open>\<open>process.platform\<close> and \<open>process.arch\<close> of the host.\<close>

record process =
  platform :: string
  arch :: string

definition goOs :: "process \<Rightarrow> string" where
  "goOs p =
     (if platform p = ''win32'' then ''windows''
      else if platform p = ''sunos'' then ''solaris''
      else platform p)"

definition goArch :: "process \<Rightarrow> string" where
  "goArch p =
     (if arch p = ''ia32'' then ''386''
      else if arch p = ''x64'' then ''amd64''
      else if arch p = ''arm64'' \<and> platform p = ''darwin'' then ''amd64''
      else arch p)"

text \<open>The name of the server binary inside the install directory (\<open>lsBinPath\<close> joins
  it to the directory).\<close>

definition lsBinName :: "process \<Rightarrow> string" where
  "lsBinName p = (if goOs p = ''windows'' then ''terraform-ls.exe'' else ''terraform-ls'')"

section \<open>The install directory and the outside world\<close>

text \<open>
  The install directory is kept as its entries, by name: the binary
  (\<open>terraform-ls\<close> or \<open>terraform-ls.exe\<close>), the downloaded archives, anything else.
  A lookup is \<open>map_of\<close>. \<open>lsBinPath(directory)\<close> is the path of the entry \<open>lsBinName\<close>,
  and the download destination is the path of the entry \<open>zipName version\<close>.
\<close>

record fs_file =
  content :: string
  executable :: bool

type_synonym folder = "(string \<times> fs_file) list"

record exec_output =
  stdout :: string
  stderr :: string

record build =
  url :: string
  filename :: string

text \<open>
  A \<open>Release\<close> of the package \<open>@hashicorp/js-releases\<close>. Its methods are not code of
  this repository: they are fields here, and what they do to the install directory is
  whatever the field does. \<open>download url destination userAgent\<close> and
  \<open>unpack directory archive\<close> return the error they reject with, if any, and the
  directory they leave behind; \<open>verify archive filename\<close> only reads.
\<close>

record Release =
  version :: string
  getBuild :: "string \<Rightarrow> string \<Rightarrow> build option"
  download :: "string \<Rightarrow> string \<Rightarrow> string \<Rightarrow> folder \<Rightarrow> js_error option \<times> folder"
  verify :: "string \<Rightarrow> string \<Rightarrow> folder \<Rightarrow> js_error option"
  unpack :: "string \<Rightarrow> string \<Rightarrow> folder \<Rightarrow> js_error option \<times> folder"

text \<open>
  Everything else the installer calls and does not define: the host, the packages
  \<open>semver\<close> and \<open>@hashicorp/js-releases\<close>, the helper \<open>exec\<close> of \<open>./utils\<close> (a
  command line run against the current directory: its output, or the error it rejects
  with), \<open>JSON.parse(stdout).version\<close>, \<open>path.join\<close>, the user's answer to an
  information message (\<open>None\<close> when it is dismissed), and the operating system refusing
  \<open>mkdir\<close> or the deletion of an entry that exists.
  \<open>semver_compare\<close> is the package's \<open>compare\<close>, through which it defines \<open>eq\<close> and
  \<open>gt\<close>; it throws on a string that is not a version.
\<close>

record env =
  host :: process
  validRange :: "string \<Rightarrow> bool"
  getRelease :: "string \<Rightarrow> string \<Rightarrow> string \<Rightarrow> js_error + Release"
  path_join :: "string \<Rightarrow> string \<Rightarrow> string"
  exec :: "folder \<Rightarrow> string \<Rightarrow> js_error + exec_output"
  jsonVersion :: "string \<Rightarrow> js_error + jsval"
  semver_compare :: "string \<Rightarrow> string \<Rightarrow> js_error + int"
  showInformationMessage :: "string \<Rightarrow> string list \<Rightarrow> string option"
  mkdirSync :: "string \<Rightarrow> js_error option"
  unlinkRefused :: "string \<Rightarrow> js_error option"

text \<open>What the installer does that the caller or the user can observe, in order.\<close>

datatype event =
    TelemetryException js_error
  | TelemetryEvent string jsval
  | InformationMessage string "string list"
  | Exec string
  | ProgressReport nat

record installer =
  directory :: string
  userAgent :: string
  release :: "Release option"

section \<open>File-system primitives\<close>

definition enoent :: "string \<Rightarrow> js_error" where
  "enoent n = \<lparr>code = JStr ''ENOENT'', status = None,
     message = ''ENOENT: no such file or directory, '' @ n\<rparr>"

definition eacces :: "string \<Rightarrow> js_error" where
  "eacces n = \<lparr>code = JStr ''EACCES'', status = None,
     message = ''EACCES: permission denied, '' @ n\<rparr>"

text \<open>
  \<open>fs.accessSync(path, fs.constants.X_OK)\<close>: throws \<open>ENOENT\<close> when the entry is missing
  and \<open>EACCES\<close> when it is there without the executable bit; on Windows \<open>X_OK\<close> only
  tests that the entry exists.
\<close>

definition accessSync_X_OK :: "process \<Rightarrow> folder \<Rightarrow> string \<Rightarrow> js_error option" where
  "accessSync_X_OK p d n =
     (case map_of d n of
        None \<Rightarrow> Some (enoent n)
      | Some f \<Rightarrow> if executable f \<or> platform p = ''win32'' then None else Some (eacces n))"

text \<open>\<open>fs.unlinkSync\<close>: throws \<open>ENOENT\<close> when the entry is missing, throws what the
  operating system answers when it refuses, removes the entry otherwise.\<close>

definition unlinkSync :: "env \<Rightarrow> folder \<Rightarrow> string \<Rightarrow> js_error option \<times> folder" where
  "unlinkSync e d n =
     (case map_of d n of
        None \<Rightarrow> (Some (enoent n), d)
      | Some f \<Rightarrow>
          (case unlinkRefused e n of
             Some err \<Rightarrow> (Some err, d)
           | None \<Rightarrow> (None, AList.delete n d)))"

section \<open>Version probing\<close>

definition lsBinPath :: "env \<Rightarrow> string \<Rightarrow> string" where
  "lsBinPath e dirPath = path_join e dirPath (lsBinName (host e))"

text \<open>The \<open>catch\<close> branch of \<open>getLsVersion\<close> when \<open>err.status != 0\<close>: the legacy flag.\<close>

definition legacyVersion :: "env \<Rightarrow> folder \<Rightarrow> string \<Rightarrow> (js_error + jsval) \<times> event list" where
  "legacyVersion e d binPath =
     (let cmd = binPath @ '' -version'' in
      case exec e d cmd of
        Inl err \<Rightarrow> (Inl err, [Exec cmd])
      | Inr out \<Rightarrow>
          (Inr (JStr (if stdout out \<noteq> [] then stdout out else stderr out)), [Exec cmd]))"

text \<open>The \<open>try\<close> block of \<open>getLsVersion\<close>: the structured flag, and the \<open>version\<close>
  property of the parsed output.\<close>

definition jsonAttempt :: "env \<Rightarrow> folder \<Rightarrow> string \<Rightarrow> js_error + jsval" where
  "jsonAttempt e d binPath =
     (case exec e d (binPath @ '' version -json'') of
        Inl err \<Rightarrow> Inl err
      | Inr out \<Rightarrow> jsonVersion e (stdout out))"

definition getLsVersion :: "env \<Rightarrow> folder \<Rightarrow> string \<Rightarrow> (js_error + jsval) \<times> event list" where
  "getLsVersion e d dirPath =
     (let binPath = lsBinPath e dirPath in
      case accessSync_X_OK (host e) d (lsBinName (host e)) of
        Some err \<Rightarrow> (Inl err, [])
      | None \<Rightarrow>
          (case jsonAttempt e d binPath of
             Inr v \<Rightarrow> (Inr v, [Exec (binPath @ '' version -json'')])
           | Inl err \<Rightarrow>
               if status err \<noteq> Some 0
               then (let (r, evs) = legacyVersion e d binPath
                     in (r, Exec (binPath @ '' version -json'') # evs))
               else (Inl err, [Exec (binPath @ '' version -json'')])))"

section \<open>The install decision\<close>

definition isValidVersionString :: "env \<Rightarrow> string \<Rightarrow> bool" where
  "isValidVersionString e v = validRange e v"

definition invalidVersion :: js_error where
  "invalidVersion = \<lparr>code = JUndefined, status = None, message = ''Invalid Version''\<rparr>"

text \<open>\<open>semver.eq\<close> and \<open>semver.gt\<close> on the release's version and whatever the probe
  returned: a value that is not a string is not a version.\<close>

definition semver_eq :: "env \<Rightarrow> string \<Rightarrow> jsval \<Rightarrow> js_error + bool" where
  "semver_eq e a v =
     (case v of
        JStr b \<Rightarrow> (case semver_compare e a b of Inl err \<Rightarrow> Inl err | Inr c \<Rightarrow> Inr (c = 0))
      | _ \<Rightarrow> Inl invalidVersion)"

definition semver_gt :: "env \<Rightarrow> string \<Rightarrow> jsval \<Rightarrow> js_error + bool" where
  "semver_gt e a v =
     (case v of
        JStr b \<Rightarrow> (case semver_compare e a b of Inl err \<Rightarrow> Inl err | Inr c \<Rightarrow> Inr (0 < c))
      | _ \<Rightarrow> Inl invalidVersion)"

definition upgradeMessage :: "string \<Rightarrow> string" where
  "upgradeMessage v = ''A new language server release is available: '' @ v @ ''. Install now?''"

definition downgradeMessage :: "string \<Rightarrow> string" where
  "downgradeMessage v =
     ''An older language server release is available: '' @ v @ ''. Install now?''"

text \<open>
  \<open>needsInstall\<close> returns what the promise settles with (\<open>Inl\<close>: rejected), the installer
  with \<open>this.release\<close> assigned, and the events. The \<open>console.log\<close> lines are left out.
\<close>

definition needsInstall ::
  "env \<Rightarrow> folder \<Rightarrow> installer \<Rightarrow> string \<Rightarrow> (js_error + bool) \<times> installer \<times> event list" where
  "needsInstall e d this requiredVersion =
     (let versionString =
            (if isValidVersionString e requiredVersion then requiredVersion else ''latest'')
      in case getRelease e ''terraform-ls'' versionString (userAgent this) of
           Inl err \<Rightarrow> (Inr False, this, [TelemetryException err])
         | Inr rel \<Rightarrow>
             (let this' = this\<lparr>release := Some rel\<rparr> in
              case getLsVersion e d (directory this') of
                (Inl err, evs) \<Rightarrow>
                  if code err \<noteq> JStr ''ENOENT''
                  then (Inl err, this', evs @ [TelemetryException err])
                  else (Inr True, this', evs)
              | (Inr installedVersion, evs) \<Rightarrow>
                  (let evs' = evs @ [TelemetryEvent ''foundLsInstalled'' installedVersion];
                       buttons = [''Install'', ''Cancel'']
                   in case semver_eq e (version rel) installedVersion of
                        Inl err \<Rightarrow> (Inl err, this', evs')
                      | Inr True \<Rightarrow> (Inr False, this', evs')
                      | Inr False \<Rightarrow>
                          (case semver_gt e (version rel) installedVersion of
                             Inl err \<Rightarrow> (Inl err, this', evs')
                           | Inr True \<Rightarrow>
                               (let msg = upgradeMessage (version rel);
                                    selected = showInformationMessage e msg buttons
                                in (Inr (selected = Some ''Install''), this',
                                    evs' @ [InformationMessage msg buttons]))
                           | Inr False \<Rightarrow>
                               (let msg = downgradeMessage (version rel);
                                    selected = showInformationMessage e msg buttons
                                in (Inr (selected = Some ''Install''), this',
                                    evs' @ [InformationMessage msg buttons]))))))"

section \<open>Installing a release\<close>

definition zipName :: "string \<Rightarrow> string" where
  "zipName v = ''terraform-ls_v'' @ v @ ''.zip''"

definition destination :: "string \<Rightarrow> string \<Rightarrow> string" where
  "destination installDir v = installDir @ ''/'' @ zipName v"

definition noMatchingBuild :: "string \<Rightarrow> string \<Rightarrow> js_error" where
  "noMatchingBuild os ar = \<lparr>code = JUndefined, status = None,
     message = ''Install error: no matching terraform-ls binary for '' @ os @ ''/'' @ ar\<rparr>"

definition removeOldBinary :: "env \<Rightarrow> folder \<Rightarrow> installer \<Rightarrow> js_error option \<times> folder" where
  "removeOldBinary e d this = unlinkSync e d (lsBinName (host e))"

text \<open>The task \<open>installPkg\<close> hands to \<open>withProgress\<close>: download, verify, unpack, each
  awaited, so the first rejection ends the task.\<close>

definition installTask ::
  "installer \<Rightarrow> Release \<Rightarrow> build \<Rightarrow> folder \<Rightarrow> js_error option \<times> folder \<times> event list" where
  "installTask this rel b d1 =
     (let dest = destination (directory this) (version rel) in
      case download rel (url b) dest (userAgent this) d1 of
        (Some err, d2) \<Rightarrow> (Some err, d2, [ProgressReport 30])
      | (None, d2) \<Rightarrow>
          (case verify rel dest (filename b) d2 of
             Some err \<Rightarrow> (Some err, d2, [ProgressReport 30, ProgressReport 30])
           | None \<Rightarrow>
               (case unpack rel (directory this) dest d2 of
                  (r, d3) \<Rightarrow> (r, d3, [ProgressReport 30, ProgressReport 30, ProgressReport 30]))))"

text \<open>\<open>installPkg\<close> returns the error it rejects with, if any, the directory it leaves
  behind and the progress it reported. Whatever \<open>removeOldBinary\<close> throws is caught and
  dropped.\<close>

definition installPkg ::
  "env \<Rightarrow> folder \<Rightarrow> installer \<Rightarrow> Release \<Rightarrow> js_error option \<times> folder \<times> event list" where
  "installPkg e d this rel =
     (case mkdirSync e (directory this) of
        Some err \<Rightarrow> (Some err, d, [])
      | None \<Rightarrow>
          (let os = goOs (host e); ar = goArch (host e) in
           case getBuild rel os ar of
             None \<Rightarrow> (Some (noMatchingBuild os ar), d, [])
           | Some b \<Rightarrow>
               (let (caught, d1) = removeOldBinary e d this
                in installTask this rel b d1)))"

section \<open>Cleaning up archives\<close>







section \<open>Reading the events\<close>

text \<open>The prompts among the events: message and buttons of every information message.\<close>

fun prompts :: "event list \<Rightarrow> (string \<times> string list) list" where
  "prompts [] = []"
| "prompts (InformationMessage m bs # evs) = (m, bs) # prompts evs"
| "prompts (ev # evs) = prompts evs"

text \<open>The release \<open>needsInstall\<close> resolves: an invalid version string counts as
  \<open>latest\<close>.\<close>

abbreviation resolved :: "env \<Rightarrow> installer \<Rightarrow> string \<Rightarrow> js_error + Release" where
  "resolved e this requiredVersion \<equiv>
     getRelease e ''terraform-ls''
       (if isValidVersionString e requiredVersion then requiredVersion else ''latest'')
       (userAgent this)"

section \<open>The show-references feature\<close>

text \<open>
  The server's capabilities as \<open>initialize\<close> reads them: \<open>experimental\<close> is missing
  (\<open>None\<close>: \<open>undefined\<close> or \<open>null\<close>, where \<open>?.\<close> gives \<open>undefined\<close>) or an object with
  properties.
\<close>

record ServerCapabilities =
  experimental :: "(string \<times> jsval) list option"

definition referenceCountCodeLens :: "ServerCapabilities \<Rightarrow> jsval" where
  "referenceCountCodeLens capabilities =
     (case experimental capabilities of
        None \<Rightarrow> JUndefined
      | Some props \<Rightarrow>
          (case map_of props ''referenceCountCodeLens'' of
             None \<Rightarrow> JUndefined
           | Some v \<Rightarrow> v))"

record Position =
  line :: nat
  character :: nat

record RefContext =
  includeDeclaration :: bool

record TextDocument =
  uri :: string

type_synonym Location = "string \<times> Position"

text \<open>The calls the registered command makes, in order.\<close>

datatype call =
    ProvideReferences TextDocument Position RefContext
  | ExecuteCommand string string Position "Location list"

text \<open>The functions this extension registers as commands: the one arrow function of
  \<open>initialize\<close>.\<close>

datatype handler = ShowRefs

text \<open>
  The editor and the language client around the feature: the commands registered so far,
  each identifier with its handler, the active document if there is an editor, the
  reference provider the client has for a document
  (\<open>client.getFeature(...).getProvider(doc)\<close>) with what its \<open>provideReferences\<close>
  answers, and whether \<open>executeCommand\<close> of the built-in action rejects.
\<close>

record editor =
  commands :: "(string \<times> handler) list"
  activeTextEditor :: "TextDocument option"
  referenceProvider ::
    "TextDocument \<Rightarrow> (TextDocument \<Rightarrow> Position \<Rightarrow> RefContext \<Rightarrow> js_error + Location list) option"
  executeCommand :: "string \<Rightarrow> string \<Rightarrow> Position \<Rightarrow> Location list \<Rightarrow> js_error option"

record ShowReferencesFeature =
  registeredCommands :: "string list"

definition showReferencesCommandId :: string where
  "showReferencesCommandId = ''client.showReferences''"

definition typeError :: js_error where
  "typeError = \<lparr>code = JUndefined, status = None,
     message = ''TypeError: Cannot read property of undefined''\<rparr>"

text \<open>\<open>vscode.commands.registerCommand\<close> throws when the identifier is taken.\<close>

definition registerCommand :: "editor \<Rightarrow> string \<Rightarrow> handler \<Rightarrow> js_error + editor" where
  "registerCommand ed ident h =
     (if ident \<in> fst ` set (commands ed)
      then Inl \<lparr>code = JUndefined, status = None,
                message = ''command '' @ ident @ '' already exists''\<rparr>
      else Inr (ed\<lparr>commands := (ident, h) # commands ed\<rparr>))"

definition initialize ::
  "ServerCapabilities \<Rightarrow> ShowReferencesFeature \<Rightarrow> editor \<Rightarrow>
     js_error + ShowReferencesFeature \<times> editor" where
  "initialize capabilities this ed =
     (if \<not> truthy (referenceCountCodeLens capabilities) then Inr (this, ed)
      else case registerCommand ed showReferencesCommandId ShowRefs of
             Inl err \<Rightarrow> Inl err
           | Inr ed' \<Rightarrow>
               Inr (this\<lparr>registeredCommands :=
                      registeredCommands this @ [showReferencesCommandId]\<rparr>, ed'))"

text \<open>The handler \<open>initialize\<close> registers: the error it rejects with, if any, and the
  calls it made.\<close>

definition showRefs :: "editor \<Rightarrow> Position \<Rightarrow> RefContext \<Rightarrow> js_error option \<times> call list" where
  "showRefs ed pos refCtx =
     (case activeTextEditor ed of
        None \<Rightarrow> (Some typeError, [])
      | Some doc \<Rightarrow>
          (let position = \<lparr>line = line pos, character = character pos\<rparr>;
               context = \<lparr>includeDeclaration = includeDeclaration refCtx\<rparr>
           in case referenceProvider ed doc of
                None \<Rightarrow> (Some typeError, [])
              | Some provideReferences \<Rightarrow>
                  (case provideReferences doc position context of
                     Inl err \<Rightarrow> (Some err, [ProvideReferences doc position context])
                   | Inr locations \<Rightarrow>
                       (executeCommand ed ''editor.action.showReferences'' (uri doc) position
                          locations,
                        [ProvideReferences doc position context,
                         ExecuteCommand ''editor.action.showReferences'' (uri doc) position
                           locations]))))"

text \<open>Invoking a registered command by its identifier, as the code lens of the server
  does, runs the handler it was registered with; an unknown identifier is an error.\<close>

definition invokeCommand ::
  "editor \<Rightarrow> string \<Rightarrow> Position \<Rightarrow> RefContext \<Rightarrow> js_error option \<times> call list" where
  "invokeCommand ed ident pos refCtx =
     (case map_of (commands ed) ident of
        None \<Rightarrow> (Some \<lparr>code = JUndefined, status = None,
                         message = ''command '' @ ident @ '' not found''\<rparr>, [])
      | Some ShowRefs \<Rightarrow> showRefs ed pos refCtx)"

text \<open>The capabilities advertise the flag: the experimental capabilities are there, they
  have the property \<open>referenceCountCodeLens\<close>, and its value is not one of the falsy
  ones.\<close>

abbreviation advertisesFlag :: "ServerCapabilities \<Rightarrow> bool" where
  "advertisesFlag caps \<equiv>
     (\<exists>props v. experimental caps = Some props \<and>
        map_of props ''referenceCountCodeLens'' = Some v \<and>
        v \<noteq> JUndefined \<and> v \<noteq> JNull \<and> v \<noteq> JBool False \<and> v \<noteq> JNum 0 \<and> v \<noteq> JStr [])"

section \<open>Stopping the experimental language client\<close>

text \<open>The static \<open>client\<close>: never assigned (\<open>undefined\<close>), \<open>null\<close>, or a client.\<close>

datatype 'a js_ref = RefUndefined | RefNull | Ref 'a

text \<open>Of the language client, the process identifier behind \<open>_serverProcess\<close>, when
  there is one.\<close>

record LanguageClient =
  serverProcess :: "nat option"

record ExperimentalLanguageClient =
  client :: "LanguageClient js_ref"
  isRunning :: bool

text \<open>\<open>langClient.stop()\<close> (what it rejects with, if anything, and the client it leaves)
  and \<open>process.kill\<close> (what it throws, if anything) belong to the library and the host.\<close>

record stop_env =
  stop :: "LanguageClient \<Rightarrow> js_error option \<times> LanguageClient"
  kill :: "nat \<Rightarrow> int \<Rightarrow> js_error option"

datatype stop_event = StopCalled | KillCalled nat int | IsRunningAssigned bool

text \<open>The body of the second \<open>try\<close>: reading \<open>pid\<close> of a missing process throws.\<close>

definition forceKill :: "stop_env \<Rightarrow> LanguageClient \<Rightarrow> js_error option \<times> stop_event list" where
  "forceKill env langClient =
     (case serverProcess langClient of
        None \<Rightarrow> (Some typeError, [])
      | Some pid \<Rightarrow> (kill env pid 9, [KillCalled pid 9]))"

text \<open>\<open>stopIfRunning\<close>: what the promise rejects with, if anything, the static fields
  afterwards, and the events. Both \<open>catch\<close> blocks are empty, so what they catch is
  dropped.\<close>

definition stopIfRunning ::
  "stop_env \<Rightarrow> ExperimentalLanguageClient \<Rightarrow>
     js_error option \<times> ExperimentalLanguageClient \<times> stop_event list" where
  "stopIfRunning env this =
     (case client this of
        RefNull \<Rightarrow> (None, this, [])
      | RefUndefined \<Rightarrow> (None, this\<lparr>isRunning := False\<rparr>, [IsRunningAssigned False])
      | Ref langClient \<Rightarrow>
          (let (caught1, langClient1) = stop env langClient;
               (caught2, evs) = forceKill env langClient1
           in (None, \<lparr>client = Ref langClient1, isRunning = False\<rparr>,
               [StopCalled] @ evs @ [IsRunningAssigned False])))"

section \<open>A concrete installation\<close>

text \<open>
  A Linux host with the install directory \<open>/ls\<close>, used to run the definitions. A server
  binary is written as the version it reports: to the structured flag on standard output,
  to the legacy flag on standard error. The versions known to the comparison are 0.19.0
  to 0.22.0.
\<close>

definition ex_host :: process where
  "ex_host = \<lparr>platform = ''linux'', arch = ''x64''\<rparr>"

definition ex_bin :: "string \<Rightarrow> fs_file" where
  "ex_bin v = \<lparr>content = v, executable = True\<rparr>"

definition ex_exec :: "folder \<Rightarrow> string \<Rightarrow> js_error + exec_output" where
  "ex_exec d cmd =
     (case map_of d ''terraform-ls'' of
        None \<Rightarrow> Inl \<lparr>code = JNum 127, status = None, message = ''Command failed: '' @ cmd\<rparr>
      | Some f \<Rightarrow>
          if cmd = ''/ls/terraform-ls version -json''
          then Inr \<lparr>stdout = content f, stderr = []\<rparr>
          else if cmd = ''/ls/terraform-ls -version''
          then Inr \<lparr>stdout = [], stderr = content f\<rparr>
          else Inl \<lparr>code = JNum 1, status = None, message = ''Command failed: '' @ cmd\<rparr>)"

definition ex_rank :: "string \<Rightarrow> int option" where
  "ex_rank v =
     (if v = ''0.19.0'' then Some 19 else if v = ''0.20.0'' then Some 20
      else if v = ''0.21.0'' then Some 21 else if v = ''0.22.0'' then Some 22 else None)"

definition ex_compare :: "string \<Rightarrow> string \<Rightarrow> js_error + int" where
  "ex_compare a b =
     (case ex_rank a of
        None \<Rightarrow> Inl invalidVersion
      | Some x \<Rightarrow>
          (case ex_rank b of
             None \<Rightarrow> Inl invalidVersion
           | Some y \<Rightarrow> Inr (if x = y then 0 else if x < y then - 1 else 1)))"

definition ex_release :: "string \<Rightarrow> Release" where
  "ex_release v =
     \<lparr>version = v,
      getBuild = (\<lambda>os ar. if os = ''linux'' \<and> ar = ''amd64''
                          then Some \<lparr>url = ''https://releases.hashicorp.com/terraform-ls/'' @ v,
                                     filename = ''terraform-ls_'' @ v @ ''_linux_amd64.zip''\<rparr>
                          else None),
      download = (\<lambda>u dest ua d.
                    (None, AList.update (zipName v) \<lparr>content = ''archive '' @ v, executable = False\<rparr> d)),
      verify = (\<lambda>dest fn d. None),
      unpack = (\<lambda>dir dest d. (None, AList.update ''terraform-ls'' (ex_bin v) d))\<rparr>"

text \<open>The host when the release index answers with version \<open>target\<close> and the user
  answers every prompt with \<open>answer\<close>.\<close>

definition ex_env :: "string \<Rightarrow> string option \<Rightarrow> env" where
  "ex_env target answer =
     \<lparr>host = ex_host,
      validRange = (\<lambda>s. ex_rank s \<noteq> None),
      getRelease = (\<lambda>n vs ua. Inr (ex_release target)),
      path_join = (\<lambda>a b. a @ ''/'' @ b),
      exec = ex_exec,
      jsonVersion = (\<lambda>s. Inr (JStr s)),
      semver_compare = ex_compare,
      showInformationMessage = (\<lambda>m bs. answer),
      mkdirSync = (\<lambda>p. None),
      unlinkRefused = (\<lambda>n. None)\<rparr>"

definition ex_installer :: installer where
  "ex_installer = \<lparr>directory = ''/ls'',
     userAgent = ''Terraform-VSCode/2.0.0 VSCode/1.50.0'', release = None\<rparr>"

definition ex_error :: "string \<Rightarrow> js_error" where
  "ex_error m = \<lparr>code = JUndefined, status = None, message = m\<rparr>"



section \<open>Properties of the platform mapping\<close>

text \<open>
  Claim C4. The platform mapping is total and has exactly these special cases: OS
  \<open>win32\<close> becomes \<open>windows\<close> and \<open>sunos\<close> becomes \<open>solaris\<close>; arch \<open>ia32\<close>
  becomes \<open>386\<close> and \<open>x64\<close> becomes \<open>amd64\<close>; arch \<open>arm64\<close> on OS \<open>darwin\<close>
  becomes \<open>amd64\<close>; every other OS and every other arch is returned unchanged. The result
  is a plain string in every case: there is no error value.
\<close>

theorem platform_mapping_cases:
  "(platform p = ''win32'' \<longrightarrow> goOs p = ''windows'') \<and>
   (platform p = ''sunos'' \<longrightarrow> goOs p = ''solaris'') \<and>
   (platform p \<noteq> ''win32'' \<and> platform p \<noteq> ''sunos'' \<longrightarrow> goOs p = platform p) \<and>
   (arch p = ''ia32'' \<longrightarrow> goArch p = ''386'') \<and>
   (arch p = ''x64'' \<longrightarrow> goArch p = ''amd64'') \<and>
   (arch p = ''arm64'' \<and> platform p = ''darwin'' \<longrightarrow> goArch p = ''amd64'') \<and>
   (arch p \<noteq> ''ia32'' \<and> arch p \<noteq> ''x64'' \<and> \<not> (arch p = ''arm64'' \<and> platform p = ''darwin'')
      \<longrightarrow> goArch p = arch p)"
  by (simp add: goOs_def goArch_def)

theorem platform_mapping_cases_witness:
  "goOs \<lparr>platform = ''win32'', arch = ''ia32''\<rparr> = ''windows'' \<and>
   goArch \<lparr>platform = ''win32'', arch = ''ia32''\<rparr> = ''386'' \<and>
   goOs \<lparr>platform = ''sunos'', arch = ''x64''\<rparr> = ''solaris'' \<and>
   goArch \<lparr>platform = ''sunos'', arch = ''x64''\<rparr> = ''amd64'' \<and>
   goOs \<lparr>platform = ''darwin'', arch = ''arm64''\<rparr> = ''darwin'' \<and>
   goArch \<lparr>platform = ''darwin'', arch = ''arm64''\<rparr> = ''amd64'' \<and>
   goOs \<lparr>platform = ''linux'', arch = ''arm64''\<rparr> = ''linux'' \<and>
   goArch \<lparr>platform = ''linux'', arch = ''arm64''\<rparr> = ''arm64''"
  using platform_mapping_cases [of "\<lparr>platform = ''win32'', arch = ''ia32''\<rparr>"]
    platform_mapping_cases [of "\<lparr>platform = ''sunos'', arch = ''x64''\<rparr>"]
    platform_mapping_cases [of "\<lparr>platform = ''darwin'', arch = ''arm64''\<rparr>"]
    platform_mapping_cases [of "\<lparr>platform = ''linux'', arch = ''arm64''\<rparr>"]
  by simp

section \<open>Properties of the install decision\<close>

lemma prompts_append: "prompts (xs @ ys) = prompts xs @ prompts ys"
  by (induction xs rule: prompts.induct) simp_all

lemma prompts_legacyVersion: "prompts (snd (legacyVersion e d b)) = []"
  by (simp add: legacyVersion_def Let_def split: sum.splits)

lemma prompts_getLsVersion: "prompts (snd (getLsVersion e d p)) = []"
  using prompts_legacyVersion [of e d "lsBinPath e p"]
  by (auto simp add: getLsVersion_def Let_def split: option.splits sum.splits prod.splits)

lemmas ex_defs =
  ex_env_def ex_host_def ex_installer_def ex_release_def ex_exec_def ex_bin_def ex_rank_def
  ex_compare_def ex_error_def

lemmas probe_defs =
  getLsVersion_def jsonAttempt_def legacyVersion_def accessSync_X_OK_def lsBinPath_def
  lsBinName_def goOs_def goArch_def enoent_def eacces_def

lemmas decide_defs =
  needsInstall_def isValidVersionString_def semver_eq_def semver_gt_def

text \<open>
  Claim C1. Let the release resolve to target version B and the probe return the string A,
  both versions for \<open>semver\<close>, whose \<open>compare\<close> of B with A gives \<open>c\<close>. When B equals
  A (\<open>c = 0\<close>) \<open>needsInstall\<close> returns false and shows no prompt. When B is greater
  (\<open>0 < c\<close>) it shows exactly one prompt, the upgrade message with the buttons Install
  and Cancel, and returns true exactly when the user's answer is Install. When B is less
  (\<open>c < 0\<close>) it shows exactly one prompt, the downgrade message, and returns true
  exactly when the answer is Install. The two messages differ for every version.
\<close>

theorem needsInstall_three_way:
  assumes "resolved e this rv = Inr rel"
    and "getLsVersion e d (directory this) = (Inr (JStr a), evs)"
    and "semver_compare e (version rel) a = Inr c"
  shows "(c = 0 \<longrightarrow>
            fst (needsInstall e d this rv) = Inr False \<and>
            prompts (snd (snd (needsInstall e d this rv))) = []) \<and>
         (0 < c \<longrightarrow>
            fst (needsInstall e d this rv) =
              Inr (showInformationMessage e (upgradeMessage (version rel))
                     [''Install'', ''Cancel''] = Some ''Install'') \<and>
            prompts (snd (snd (needsInstall e d this rv))) =
              [(upgradeMessage (version rel), [''Install'', ''Cancel''])]) \<and>
         (c < 0 \<longrightarrow>
            fst (needsInstall e d this rv) =
              Inr (showInformationMessage e (downgradeMessage (version rel))
                     [''Install'', ''Cancel''] = Some ''Install'') \<and>
            prompts (snd (snd (needsInstall e d this rv))) =
              [(downgradeMessage (version rel), [''Install'', ''Cancel''])]) \<and>
         upgradeMessage (version rel) \<noteq> downgradeMessage (version rel)"
proof -
  have p: "prompts evs = []"
    using prompts_getLsVersion [of e d "directory this"] assms(2) by simp
  have m: "upgradeMessage (version rel) \<noteq> downgradeMessage (version rel)"
    by (simp add: upgradeMessage_def downgradeMessage_def)
  show ?thesis
    using assms p m
    by (simp add: needsInstall_def semver_eq_def semver_gt_def Let_def prompts_append)
qed

theorem needsInstall_three_way_witness:
  "fst (needsInstall (ex_env ''0.20.0'' None) [(''terraform-ls'', ex_bin ''0.20.0'')]
          ex_installer ''latest'') = Inr False \<and>
   prompts (snd (snd (needsInstall (ex_env ''0.20.0'' None)
          [(''terraform-ls'', ex_bin ''0.20.0'')] ex_installer ''latest''))) = [] \<and>
   fst (needsInstall (ex_env ''0.21.0'' (Some ''Install''))
          [(''terraform-ls'', ex_bin ''0.20.0'')] ex_installer ''latest'') = Inr True \<and>
   prompts (snd (snd (needsInstall (ex_env ''0.21.0'' (Some ''Install''))
          [(''terraform-ls'', ex_bin ''0.20.0'')] ex_installer ''latest''))) =
     [(''A new language server release is available: 0.21.0. Install now?'',
       [''Install'', ''Cancel''])] \<and>
   fst (needsInstall (ex_env ''0.19.0'' (Some ''Cancel''))
          [(''terraform-ls'', ex_bin ''0.22.0'')] ex_installer ''latest'') = Inr False \<and>
   prompts (snd (snd (needsInstall (ex_env ''0.19.0'' (Some ''Cancel''))
          [(''terraform-ls'', ex_bin ''0.22.0'')] ex_installer ''latest''))) =
     [(''An older language server release is available: 0.19.0. Install now?'',
       [''Install'', ''Cancel''])]"
proof -
  let ?json = "Exec ''/ls/terraform-ls version -json''"
  have r: "\<And>t ans. resolved (ex_env t ans) ex_installer ''latest'' = Inr (ex_release t)"
    by (simp add: ex_defs)
  have g: "\<And>t ans v. getLsVersion (ex_env t ans) [(''terraform-ls'', ex_bin v)]
        (directory ex_installer) = (Inr (JStr v), [?json])"
    by (simp add: ex_defs probe_defs)
  have c0: "semver_compare (ex_env ''0.20.0'' None) (version (ex_release ''0.20.0'')) ''0.20.0''
      = Inr 0"
    by (simp add: ex_defs)
  have c1: "semver_compare (ex_env ''0.21.0'' (Some ''Install'')) (version (ex_release ''0.21.0''))
      ''0.20.0'' = Inr 1"
    by (simp add: ex_defs)
  have c2: "semver_compare (ex_env ''0.19.0'' (Some ''Cancel'')) (version (ex_release ''0.19.0''))
      ''0.22.0'' = Inr (- 1)"
    by (simp add: ex_defs)
  show ?thesis
    using needsInstall_three_way [OF r g c0] needsInstall_three_way [OF r g c1]
      needsInstall_three_way [OF r g c2]
    by (simp add: ex_defs upgradeMessage_def downgradeMessage_def)
qed

text \<open>
  Claim C2. When resolving the release fails, \<open>needsInstall\<close> reports the error to
  telemetry and returns false: it does not reject and shows no prompt. When the probe
  fails with the code \<open>ENOENT\<close> (nothing installed), it returns true and shows no
  prompt. When the probe fails with any other error, \<open>needsInstall\<close> rejects with that
  very error.
\<close>

theorem needsInstall_failure_policy:
  "(resolved e this rv = Inl err \<longrightarrow>
      needsInstall e d this rv = (Inr False, this, [TelemetryException err])) \<and>
   (resolved e this rv = Inr rel \<and> fst (getLsVersion e d (directory this)) = Inl err \<and>
    code err = JStr ''ENOENT'' \<longrightarrow>
      fst (needsInstall e d this rv) = Inr True \<and>
      prompts (snd (snd (needsInstall e d this rv))) = []) \<and>
   (resolved e this rv = Inr rel \<and> fst (getLsVersion e d (directory this)) = Inl err \<and>
    code err \<noteq> JStr ''ENOENT'' \<longrightarrow>
      fst (needsInstall e d this rv) = Inl err)"
proof (intro conjI impI)
  assume "resolved e this rv = Inl err"
  then show "needsInstall e d this rv = (Inr False, this, [TelemetryException err])"
    by (simp add: needsInstall_def)
next
  assume a: "resolved e this rv = Inr rel \<and> fst (getLsVersion e d (directory this)) = Inl err \<and>
    code err = JStr ''ENOENT''"
  obtain r evs where g: "getLsVersion e d (directory this) = (r, evs)"
    by (cases "getLsVersion e d (directory this)")
  with a have r: "r = Inl err" by simp
  from prompts_getLsVersion [of e d "directory this"] g have p: "prompts evs = []" by simp
  from a g r show "fst (needsInstall e d this rv) = Inr True"
    by (simp add: needsInstall_def)
  from a g r p show "prompts (snd (snd (needsInstall e d this rv))) = []"
    by (simp add: needsInstall_def)
next
  assume a: "resolved e this rv = Inr rel \<and> fst (getLsVersion e d (directory this)) = Inl err \<and>
    code err \<noteq> JStr ''ENOENT''"
  obtain r evs where g: "getLsVersion e d (directory this) = (r, evs)"
    by (cases "getLsVersion e d (directory this)")
  with a have r: "r = Inl err" by simp
  from a g r show "fst (needsInstall e d this rv) = Inl err"
    by (simp add: needsInstall_def)
qed

theorem needsInstall_failure_policy_witness:
  "needsInstall ((ex_env ''0.21.0'' None)\<lparr>getRelease := \<lambda>n vs ua. Inl (ex_error ''offline'')\<rparr>)
     [(''terraform-ls'', ex_bin ''0.20.0'')] ex_installer ''latest'' =
     (Inr False, ex_installer, [TelemetryException (ex_error ''offline'')]) \<and>
   fst (getLsVersion (ex_env ''0.21.0'' None) [] ''/ls'') = Inl (enoent ''terraform-ls'') \<and>
   fst (needsInstall (ex_env ''0.21.0'' None) [] ex_installer ''latest'') = Inr True \<and>
   prompts (snd (snd (needsInstall (ex_env ''0.21.0'' None) [] ex_installer ''latest''))) = [] \<and>
   fst (getLsVersion ((ex_env ''0.21.0'' None)\<lparr>exec := \<lambda>d cmd. Inl (ex_error ''spawn EPERM'')\<rparr>)
          [(''terraform-ls'', ex_bin ''0.20.0'')] ''/ls'') = Inl (ex_error ''spawn EPERM'') \<and>
   fst (needsInstall ((ex_env ''0.21.0'' None)\<lparr>exec := \<lambda>d cmd. Inl (ex_error ''spawn EPERM'')\<rparr>)
          [(''terraform-ls'', ex_bin ''0.20.0'')] ex_installer ''latest'') =
     Inl (ex_error ''spawn EPERM'')"
  using needsInstall_failure_policy
      [where e = "(ex_env ''0.21.0'' None)\<lparr>getRelease := \<lambda>n vs ua. Inl (ex_error ''offline'')\<rparr>"
         and this = ex_installer and rv = "''latest''" and err = "ex_error ''offline''"
         and d = "[(''terraform-ls'', ex_bin ''0.20.0'')]"]
    needsInstall_failure_policy
      [where e = "ex_env ''0.21.0'' None" and this = ex_installer and rv = "''latest''"
         and err = "enoent ''terraform-ls''" and d = "[]" and rel = "ex_release ''0.21.0''"]
    needsInstall_failure_policy
      [where e = "(ex_env ''0.21.0'' None)\<lparr>exec := \<lambda>d cmd. Inl (ex_error ''spawn EPERM'')\<rparr>"
         and this = ex_installer and rv = "''latest''" and err = "ex_error ''spawn EPERM''"
         and d = "[(''terraform-ls'', ex_bin ''0.20.0'')]" and rel = "ex_release ''0.21.0''"]
  by (simp add: ex_defs probe_defs)

section \<open>Properties of version probing\<close>

text \<open>
  Claim C3, as the code has it. The access check of the probe fails with the code
  \<open>ENOENT\<close> exactly when the binary is absent, and then the probe fails with that error,
  which \<open>needsInstall\<close> takes as not installed: it returns true with no event at all. A
  binary that is present without the executable bit, on a host other than Windows, makes
  the probe fail with \<open>EACCES\<close>; \<open>needsInstall\<close> reports that error to telemetry and
  rejects with it. In general, whatever error the probe fails with: when its code is
  \<open>ENOENT\<close>, \<open>needsInstall\<close> returns true and adds no event to those of the probe; when
  its code is anything else, \<open>needsInstall\<close> reports that very error to telemetry, after
  the events of the probe, and rejects with it.
\<close>

theorem probe_not_installed_is_enoent:
  "(accessSync_X_OK (host e) d (lsBinName (host e)) = Some (enoent (lsBinName (host e)))
      \<longleftrightarrow> map_of d (lsBinName (host e)) = None) \<and>
   (map_of d (lsBinName (host e)) = None \<longrightarrow>
      getLsVersion e d p = (Inl (enoent (lsBinName (host e))), [])) \<and>
   (map_of d (lsBinName (host e)) = Some f \<and> \<not> executable f \<and> platform (host e) \<noteq> ''win32'' \<longrightarrow>
      getLsVersion e d p = (Inl (eacces (lsBinName (host e))), [])) \<and>
   (resolved e this rv = Inr rel \<and> map_of d (lsBinName (host e)) = None \<longrightarrow>
      needsInstall e d this rv = (Inr True, this\<lparr>release := Some rel\<rparr>, [])) \<and>
   (resolved e this rv = Inr rel \<and> map_of d (lsBinName (host e)) = Some f \<and> \<not> executable f \<and>
    platform (host e) \<noteq> ''win32'' \<longrightarrow>
      needsInstall e d this rv =
        (Inl (eacces (lsBinName (host e))), this\<lparr>release := Some rel\<rparr>,
         [TelemetryException (eacces (lsBinName (host e)))])) \<and>
   (resolved e this rv = Inr rel \<and> getLsVersion e d (directory this) = (Inl err, evs) \<and>
    code err = JStr ''ENOENT'' \<longrightarrow>
      needsInstall e d this rv = (Inr True, this\<lparr>release := Some rel\<rparr>, evs)) \<and>
   (resolved e this rv = Inr rel \<and> getLsVersion e d (directory this) = (Inl err, evs) \<and>
    code err \<noteq> JStr ''ENOENT'' \<longrightarrow>
      needsInstall e d this rv =
        (Inl err, this\<lparr>release := Some rel\<rparr>, evs @ [TelemetryException err]))"
proof -
  have probe: "(accessSync_X_OK (host e) d (lsBinName (host e)) =
        Some (enoent (lsBinName (host e))) \<longleftrightarrow> map_of d (lsBinName (host e)) = None) \<and>
      (map_of d (lsBinName (host e)) = None \<longrightarrow>
        getLsVersion e d p = (Inl (enoent (lsBinName (host e))), [])) \<and>
      (map_of d (lsBinName (host e)) = Some f \<and> \<not> executable f \<and>
       platform (host e) \<noteq> ''win32'' \<longrightarrow>
        getLsVersion e d p = (Inl (eacces (lsBinName (host e))), []))"
    by (auto simp add: accessSync_X_OK_def getLsVersion_def enoent_def eacces_def
        split: option.splits)
  have absent: "resolved e this rv = Inr rel \<and> map_of d (lsBinName (host e)) = None \<longrightarrow>
      needsInstall e d this rv = (Inr True, this\<lparr>release := Some rel\<rparr>, [])"
    by (auto simp add: accessSync_X_OK_def getLsVersion_def needsInstall_def enoent_def)
  have noexec: "resolved e this rv = Inr rel \<and> map_of d (lsBinName (host e)) = Some f \<and>
      \<not> executable f \<and> platform (host e) \<noteq> ''win32'' \<longrightarrow>
      needsInstall e d this rv =
        (Inl (eacces (lsBinName (host e))), this\<lparr>release := Some rel\<rparr>,
         [TelemetryException (eacces (lsBinName (host e)))])"
    by (auto simp add: accessSync_X_OK_def getLsVersion_def needsInstall_def eacces_def)
  have taken: "resolved e this rv = Inr rel \<and>
      getLsVersion e d (directory this) = (Inl err, evs) \<and> code err = JStr ''ENOENT'' \<longrightarrow>
      needsInstall e d this rv = (Inr True, this\<lparr>release := Some rel\<rparr>, evs)"
    by (simp add: needsInstall_def)
  have thrown: "resolved e this rv = Inr rel \<and>
      getLsVersion e d (directory this) = (Inl err, evs) \<and> code err \<noteq> JStr ''ENOENT'' \<longrightarrow>
      needsInstall e d this rv =
        (Inl err, this\<lparr>release := Some rel\<rparr>, evs @ [TelemetryException err])"
    by (simp add: needsInstall_def)
  from probe absent noexec taken thrown show ?thesis by blast
qed

theorem probe_not_installed_is_enoent_witness:
  "map_of ([] :: folder) ''terraform-ls'' = None \<and>
   getLsVersion (ex_env ''0.21.0'' None) [] ''/ls'' = (Inl (enoent ''terraform-ls''), []) \<and>
   fst (needsInstall (ex_env ''0.21.0'' None) [] ex_installer ''latest'') = Inr True \<and>
   snd (snd (needsInstall (ex_env ''0.21.0'' None) [] ex_installer ''latest'')) = [] \<and>
   getLsVersion (ex_env ''0.21.0'' None)
     [(''terraform-ls'', \<lparr>content = ''0.20.0'', executable = False\<rparr>)] ''/ls'' =
     (Inl (eacces ''terraform-ls''), []) \<and>
   snd (snd (needsInstall (ex_env ''0.21.0'' None)
     [(''terraform-ls'', \<lparr>content = ''0.20.0'', executable = False\<rparr>)] ex_installer ''latest'')) =
     [TelemetryException (eacces ''terraform-ls'')] \<and>
   getLsVersion ((ex_env ''0.21.0'' None)\<lparr>exec := \<lambda>d cmd. Inl (ex_error ''spawn EPERM'')\<rparr>)
     [(''terraform-ls'', ex_bin ''0.20.0'')] ''/ls'' =
     (Inl (ex_error ''spawn EPERM''),
      [Exec ''/ls/terraform-ls version -json'', Exec ''/ls/terraform-ls -version'']) \<and>
   fst (needsInstall ((ex_env ''0.21.0'' None)\<lparr>exec := \<lambda>d cmd. Inl (ex_error ''spawn EPERM'')\<rparr>)
     [(''terraform-ls'', ex_bin ''0.20.0'')] ex_installer ''latest'') =
     Inl (ex_error ''spawn EPERM'') \<and>
   snd (snd (needsInstall
     ((ex_env ''0.21.0'' None)\<lparr>exec := \<lambda>d cmd. Inl (ex_error ''spawn EPERM'')\<rparr>)
     [(''terraform-ls'', ex_bin ''0.20.0'')] ex_installer ''latest'')) =
     [Exec ''/ls/terraform-ls version -json'', Exec ''/ls/terraform-ls -version'',
      TelemetryException (ex_error ''spawn EPERM'')] \<and>
   fst (needsInstall
     ((ex_env ''0.21.0'' None)\<lparr>exec := \<lambda>d cmd.
        Inl \<lparr>code = JStr ''ENOENT'', status = None, message = ''spawn /bin/sh ENOENT''\<rparr>\<rparr>)
     [(''terraform-ls'', ex_bin ''0.20.0'')] ex_installer ''latest'') = Inr True \<and>
   snd (snd (needsInstall
     ((ex_env ''0.21.0'' None)\<lparr>exec := \<lambda>d cmd.
        Inl \<lparr>code = JStr ''ENOENT'', status = None, message = ''spawn /bin/sh ENOENT''\<rparr>\<rparr>)
     [(''terraform-ls'', ex_bin ''0.20.0'')] ex_installer ''latest'')) =
     [Exec ''/ls/terraform-ls version -json'', Exec ''/ls/terraform-ls -version'']"
proof -
  let ?e = "ex_env ''0.21.0'' None"
  let ?e1 = "(ex_env ''0.21.0'' None)\<lparr>exec := \<lambda>d cmd. Inl (ex_error ''spawn EPERM'')\<rparr>"
  let ?sh = "\<lparr>code = JStr ''ENOENT'', status = None, message = ''spawn /bin/sh ENOENT''\<rparr>"
  let ?e2 = "(ex_env ''0.21.0'' None)\<lparr>exec := \<lambda>d cmd. Inl ?sh\<rparr>"
  let ?d = "[(''terraform-ls'', ex_bin ''0.20.0'')]"
  let ?evs = "[Exec ''/ls/terraform-ls version -json'', Exec ''/ls/terraform-ls -version'']"
  have r: "resolved ?e ex_installer ''latest'' = Inr (ex_release ''0.21.0'')"
    and r1: "resolved ?e1 ex_installer ''latest'' = Inr (ex_release ''0.21.0'')"
    and r2: "resolved ?e2 ex_installer ''latest'' = Inr (ex_release ''0.21.0'')"
    by (simp_all add: ex_defs)
  have g1: "getLsVersion ?e1 ?d ''/ls'' = (Inl (ex_error ''spawn EPERM''), ?evs)"
    and g2: "getLsVersion ?e2 ?d ''/ls'' = (Inl ?sh, ?evs)"
    by (simp_all add: ex_defs probe_defs)
  have dir: "directory ex_installer = ''/ls''"
    by (simp add: ex_installer_def)
  have c1: "code (ex_error ''spawn EPERM'') \<noteq> JStr ''ENOENT''"
    and c2: "code ?sh = JStr ''ENOENT''"
    by (simp_all add: ex_error_def)
  have n1: "needsInstall ?e1 ?d ex_installer ''latest'' =
      (Inl (ex_error ''spawn EPERM''), ex_installer\<lparr>release := Some (ex_release ''0.21.0'')\<rparr>,
       ?evs @ [TelemetryException (ex_error ''spawn EPERM'')])"
    using probe_not_installed_is_enoent [where e = ?e1 and d = ?d and this = ex_installer
        and rv = "''latest''" and rel = "ex_release ''0.21.0''"
        and err = "ex_error ''spawn EPERM''" and evs = ?evs] r1 g1 dir c1
    by simp
  have n2: "needsInstall ?e2 ?d ex_installer ''latest'' =
      (Inr True, ex_installer\<lparr>release := Some (ex_release ''0.21.0'')\<rparr>, ?evs)"
    using probe_not_installed_is_enoent [where e = ?e2 and d = ?d and this = ex_installer
        and rv = "''latest''" and rel = "ex_release ''0.21.0''" and err = ?sh and evs = ?evs]
      r2 g2 dir c2
    by simp
  have first: "map_of ([] :: folder) ''terraform-ls'' = None \<and>
      getLsVersion ?e [] ''/ls'' = (Inl (enoent ''terraform-ls''), []) \<and>
      fst (needsInstall ?e [] ex_installer ''latest'') = Inr True \<and>
      snd (snd (needsInstall ?e [] ex_installer ''latest'')) = [] \<and>
      getLsVersion ?e [(''terraform-ls'', \<lparr>content = ''0.20.0'', executable = False\<rparr>)] ''/ls'' =
        (Inl (eacces ''terraform-ls''), []) \<and>
      snd (snd (needsInstall ?e
        [(''terraform-ls'', \<lparr>content = ''0.20.0'', executable = False\<rparr>)] ex_installer
        ''latest'')) = [TelemetryException (eacces ''terraform-ls'')]"
    using probe_not_installed_is_enoent
        [where e = ?e and d = "[]" and p = "''/ls''" and this = ex_installer
           and rv = "''latest''" and rel = "ex_release ''0.21.0''"]
      probe_not_installed_is_enoent
        [where e = ?e
           and d = "[(''terraform-ls'', \<lparr>content = ''0.20.0'', executable = False\<rparr>)]"
           and f = "\<lparr>content = ''0.20.0'', executable = False\<rparr>"
           and p = "''/ls''" and this = ex_installer
           and rv = "''latest''" and rel = "ex_release ''0.21.0''"]
    by (simp add: ex_defs lsBinName_def goOs_def)
  from first g1 n1 n2 show ?thesis by simp
qed

text \<open>
  The claim as stated fails on Linux for a binary without the executable bit: the probe
  fails with \<open>EACCES\<close>, not with the not-installed code, and \<open>needsInstall\<close> rejects
  instead of returning true.
\<close>

theorem not_executable_binary_counterexample:
  "map_of [(''terraform-ls'', \<lparr>content = ''0.20.0'', executable = False\<rparr>)] ''terraform-ls'' =
     Some \<lparr>content = ''0.20.0'', executable = False\<rparr> \<and>
   fst (getLsVersion (ex_env ''0.21.0'' None)
     [(''terraform-ls'', \<lparr>content = ''0.20.0'', executable = False\<rparr>)] ''/ls'') =
     Inl (eacces ''terraform-ls'') \<and>
   code (eacces ''terraform-ls'') \<noteq> JStr ''ENOENT'' \<and>
   fst (needsInstall (ex_env ''0.21.0'' None)
     [(''terraform-ls'', \<lparr>content = ''0.20.0'', executable = False\<rparr>)] ex_installer ''latest'') =
     Inl (eacces ''terraform-ls'') \<and>
   fst (needsInstall (ex_env ''0.21.0'' None)
     [(''terraform-ls'', \<lparr>content = ''0.20.0'', executable = False\<rparr>)] ex_installer ''latest'') \<noteq>
     Inr True"
  by (simp add: ex_defs probe_defs decide_defs)




section \<open>Properties of installing\<close>

lemma map_of_unlinkSync:
  "map_of (snd (unlinkSync e d n)) m =
     (if m = n \<and> unlinkRefused e n = None then None else map_of d m)"
  by (auto simp add: unlinkSync_def delete_conv' split: option.splits)

lemma zipName_not_lsBinName: "zipName v \<noteq> lsBinName p"
  by (simp add: zipName_def lsBinName_def)


lemma getLsVersion_absent:
  "map_of d (lsBinName (host e)) = None \<Longrightarrow>
     getLsVersion e d p = (Inl (enoent (lsBinName (host e))), [])"
  by (simp add: getLsVersion_def accessSync_X_OK_def)

lemma installPkg_task:
  assumes "mkdirSync e (directory this) = None"
    and "getBuild rel (goOs (host e)) (goArch (host e)) = Some b"
  shows "installPkg e d this rel = installTask this rel b (snd (removeOldBinary e d this))"
  using assms by (cases "removeOldBinary e d this") (simp add: installPkg_def)



text \<open>
  Claim C10, as the code has it. Take a run of \<open>installPkg\<close> that resolves a matching
  build, in which the operating system does not refuse the deletion of the old binary and
  \<open>download\<close> writes nothing in the install directory but its destination. Then the
  entry of the binary is gone before the download begins, and when the run fails during
  download, during verification, or during an unpack that has not written the binary,
  \<open>installPkg\<close> rejects with that error and a probe afterwards fails with \<open>ENOENT\<close>
  (not installed).
\<close>

theorem failed_install_after_removal:
  assumes frame: "\<forall>u ua d0 n. n \<noteq> zipName (version rel) \<longrightarrow>
            map_of (snd (download rel u (destination (directory this) (version rel)) ua d0)) n
              = map_of d0 n"
    and mk: "mkdirSync e (directory this) = None"
    and bd: "getBuild rel (goOs (host e)) (goArch (host e)) = Some b"
    and rm: "unlinkRefused e (lsBinName (host e)) = None"
  shows "map_of (snd (removeOldBinary e d this)) (lsBinName (host e)) = None \<and>
         (download rel (url b) (destination (directory this) (version rel)) (userAgent this)
            (snd (removeOldBinary e d this)) = (Some err, d2) \<longrightarrow>
          installPkg e d this rel = (Some err, d2, [ProgressReport 30]) \<and>
          getLsVersion e d2 p = (Inl (enoent (lsBinName (host e))), [])) \<and>
         (download rel (url b) (destination (directory this) (version rel)) (userAgent this)
            (snd (removeOldBinary e d this)) = (None, d2) \<and>
          verify rel (destination (directory this) (version rel)) (filename b) d2 = Some err \<longrightarrow>
          installPkg e d this rel = (Some err, d2, [ProgressReport 30, ProgressReport 30]) \<and>
          getLsVersion e d2 p = (Inl (enoent (lsBinName (host e))), [])) \<and>
         (download rel (url b) (destination (directory this) (version rel)) (userAgent this)
            (snd (removeOldBinary e d this)) = (None, d2) \<and>
          verify rel (destination (directory this) (version rel)) (filename b) d2 = None \<and>
          unpack rel (directory this) (destination (directory this) (version rel)) d2 =
            (Some err, d3) \<and>
          map_of d3 (lsBinName (host e)) = map_of d2 (lsBinName (host e)) \<longrightarrow>
          installPkg e d this rel =
            (Some err, d3, [ProgressReport 30, ProgressReport 30, ProgressReport 30]) \<and>
          getLsVersion e d3 p = (Inl (enoent (lsBinName (host e))), []))"
proof -
  let ?bin = "lsBinName (host e)"
  let ?d1 = "snd (removeOldBinary e d this)"
  let ?dl = "download rel (url b) (destination (directory this) (version rel)) (userAgent this) ?d1"
  have gone: "map_of ?d1 ?bin = None"
    using rm by (simp add: removeOldBinary_def map_of_unlinkSync)
  have kept: "map_of (snd ?dl) ?bin = None"
    using frame zipName_not_lsBinName [of "version rel" "host e"] gone by metis
  have a: "?dl = (Some err, d2) \<longrightarrow>
      installPkg e d this rel = (Some err, d2, [ProgressReport 30]) \<and>
      getLsVersion e d2 p = (Inl (enoent ?bin), [])"
    using kept by (auto simp add: installPkg_task [OF mk bd] installTask_def getLsVersion_absent)
  have b: "?dl = (None, d2) \<and>
      verify rel (destination (directory this) (version rel)) (filename b) d2 = Some err \<longrightarrow>
      installPkg e d this rel = (Some err, d2, [ProgressReport 30, ProgressReport 30]) \<and>
      getLsVersion e d2 p = (Inl (enoent ?bin), [])"
    using kept by (auto simp add: installPkg_task [OF mk bd] installTask_def getLsVersion_absent)
  have c: "?dl = (None, d2) \<and>
      verify rel (destination (directory this) (version rel)) (filename b) d2 = None \<and>
      unpack rel (directory this) (destination (directory this) (version rel)) d2 = (Some err, d3) \<and>
      map_of d3 ?bin = map_of d2 ?bin \<longrightarrow>
      installPkg e d this rel =
        (Some err, d3, [ProgressReport 30, ProgressReport 30, ProgressReport 30]) \<and>
      getLsVersion e d3 p = (Inl (enoent ?bin), [])"
    using kept by (auto simp add: installPkg_task [OF mk bd] installTask_def getLsVersion_absent)
  from gone a b c show ?thesis by blast
qed

theorem failed_install_after_removal_witness:
  "installPkg (ex_env ''0.21.0'' None) [(''terraform-ls'', ex_bin ''0.20.0'')] ex_installer
     ((ex_release ''0.21.0'')\<lparr>download := \<lambda>u dest ua d. (Some (ex_error ''socket hang up''), d)\<rparr>) =
     (Some (ex_error ''socket hang up''), [], [ProgressReport 30]) \<and>
   getLsVersion (ex_env ''0.21.0'' None) [] ''/ls'' = (Inl (enoent ''terraform-ls''), []) \<and>
   installPkg (ex_env ''0.21.0'' None) [(''terraform-ls'', ex_bin ''0.20.0'')] ex_installer
     ((ex_release ''0.21.0'')\<lparr>verify := \<lambda>dest fn d. Some (ex_error ''checksum mismatch'')\<rparr>) =
     (Some (ex_error ''checksum mismatch''),
      [(''terraform-ls_v0.21.0.zip'', \<lparr>content = ''archive 0.21.0'', executable = False\<rparr>)],
      [ProgressReport 30, ProgressReport 30]) \<and>
   installPkg (ex_env ''0.21.0'' None) [(''terraform-ls'', ex_bin ''0.20.0'')] ex_installer
     ((ex_release ''0.21.0'')\<lparr>unpack := \<lambda>dir dest d. (Some (ex_error ''invalid archive''), d)\<rparr>) =
     (Some (ex_error ''invalid archive''),
      [(''terraform-ls_v0.21.0.zip'', \<lparr>content = ''archive 0.21.0'', executable = False\<rparr>)],
      [ProgressReport 30, ProgressReport 30, ProgressReport 30])"
proof -
  let ?e = "ex_env ''0.21.0'' None"
  let ?d = "[(''terraform-ls'', ex_bin ''0.20.0'')]"
  let ?zip = "(''terraform-ls_v0.21.0.zip'', \<lparr>content = ''archive 0.21.0'', executable = False\<rparr>)"
  let ?b = "\<lparr>url = ''https://releases.hashicorp.com/terraform-ls/0.21.0'',
             filename = ''terraform-ls_0.21.0_linux_amd64.zip''\<rparr>"
  let ?r1 = "(ex_release ''0.21.0'')\<lparr>download := \<lambda>u dest ua d. (Some (ex_error ''socket hang up''), d)\<rparr>"
  let ?r2 = "(ex_release ''0.21.0'')\<lparr>verify := \<lambda>dest fn d. Some (ex_error ''checksum mismatch'')\<rparr>"
  let ?r3 = "(ex_release ''0.21.0'')\<lparr>unpack := \<lambda>dir dest d. (Some (ex_error ''invalid archive''), d)\<rparr>"
  have frame: "\<And>rel. rel = ?r1 \<or> rel = ?r2 \<or> rel = ?r3 \<Longrightarrow>
      \<forall>u ua d0 n. n \<noteq> zipName (version rel) \<longrightarrow>
        map_of (snd (download rel u (destination (directory ex_installer) (version rel)) ua d0)) n
          = map_of d0 n"
    by (auto simp add: ex_release_def update_conv')
  have f1: "\<forall>u ua d0 n. n \<noteq> zipName (version ?r1) \<longrightarrow>
        map_of (snd (download ?r1 u (destination (directory ex_installer) (version ?r1)) ua d0)) n
          = map_of d0 n"
    and f2: "\<forall>u ua d0 n. n \<noteq> zipName (version ?r2) \<longrightarrow>
        map_of (snd (download ?r2 u (destination (directory ex_installer) (version ?r2)) ua d0)) n
          = map_of d0 n"
    and f3: "\<forall>u ua d0 n. n \<noteq> zipName (version ?r3) \<longrightarrow>
        map_of (snd (download ?r3 u (destination (directory ex_installer) (version ?r3)) ua d0)) n
          = map_of d0 n"
    using frame by blast+
  have mk: "mkdirSync ?e (directory ex_installer) = None"
    by (simp add: ex_defs)
  have b1: "getBuild ?r1 (goOs (host ?e)) (goArch (host ?e)) = Some ?b"
    and b2: "getBuild ?r2 (goOs (host ?e)) (goArch (host ?e)) = Some ?b"
    and b3: "getBuild ?r3 (goOs (host ?e)) (goArch (host ?e)) = Some ?b"
    by (simp_all add: ex_defs goOs_def goArch_def)
  have rm: "unlinkRefused ?e (lsBinName (host ?e)) = None"
    by (simp add: ex_defs)
  have d1: "snd (removeOldBinary ?e ?d ex_installer) = []"
    by (simp add: ex_defs removeOldBinary_def unlinkSync_def lsBinName_def goOs_def AList.delete_eq)
  have run1: "installPkg ?e ?d ex_installer ?r1 =
      (Some (ex_error ''socket hang up''), [], [ProgressReport 30])"
    using failed_install_after_removal [OF f1 mk b1 rm, where err = "ex_error ''socket hang up''" and d = ?d and ?d2.0 = "[]" and p = "''/ls''"]
    by (simp add: d1 ex_release_def)
  have run2: "installPkg ?e ?d ex_installer ?r2 =
      (Some (ex_error ''checksum mismatch''), [?zip], [ProgressReport 30, ProgressReport 30])"
    using failed_install_after_removal [OF f2 mk b2 rm, where err = "ex_error ''checksum mismatch''" and d = ?d and ?d2.0 = "[?zip]" and p = "''/ls''"]
    by (simp add: d1 ex_release_def zipName_def)
  have run3: "installPkg ?e ?d ex_installer ?r3 =
      (Some (ex_error ''invalid archive''), [?zip],
       [ProgressReport 30, ProgressReport 30, ProgressReport 30])"
    using failed_install_after_removal [OF f3 mk b3 rm, where err = "ex_error ''invalid archive''" and d = ?d and ?d2.0 = "[?zip]"
        and ?d3.0 = "[?zip]" and p = "''/ls''"]
    by (simp add: d1 ex_release_def zipName_def)
  have probe: "getLsVersion ?e [] ''/ls'' = (Inl (enoent ''terraform-ls''), [])"
    by (simp add: ex_defs probe_defs)
  from run1 run2 run3 probe show ?thesis by blast
qed

text \<open>
  The claim as stated fails when the deletion of the old binary is refused (a binary in
  use on Windows, a protected file): \<open>installPkg\<close> ignores the refusal, the download
  fails, and the prior version is still the active binary, which the probe reports.
\<close>

theorem refused_removal_counterexample:
  "installPkg ((ex_env ''0.21.0'' None)\<lparr>unlinkRefused := \<lambda>n. Some (ex_error ''EPERM'')\<rparr>)
     [(''terraform-ls'', ex_bin ''0.20.0'')] ex_installer
     ((ex_release ''0.21.0'')\<lparr>download := \<lambda>u dest ua d. (Some (ex_error ''socket hang up''), d)\<rparr>) =
     (Some (ex_error ''socket hang up''), [(''terraform-ls'', ex_bin ''0.20.0'')],
      [ProgressReport 30]) \<and>
   getLsVersion ((ex_env ''0.21.0'' None)\<lparr>unlinkRefused := \<lambda>n. Some (ex_error ''EPERM'')\<rparr>)
     [(''terraform-ls'', ex_bin ''0.20.0'')] ''/ls'' =
     (Inr (JStr ''0.20.0''), [Exec ''/ls/terraform-ls version -json''])"
  by (simp add: ex_defs probe_defs installPkg_def installTask_def removeOldBinary_def
      unlinkSync_def)

section \<open>Properties of the cleanup\<close>















section \<open>Properties of the show-references feature\<close>

lemma truthy_iff:
  "truthy v \<longleftrightarrow> v \<noteq> JUndefined \<and> v \<noteq> JNull \<and> v \<noteq> JBool False \<and> v \<noteq> JNum 0 \<and> v \<noteq> JStr []"
  by (cases v) auto

lemma commands_changed: "ed\<lparr>commands := x # commands ed\<rparr> \<noteq> ed"
proof
  assume "ed\<lparr>commands := x # commands ed\<rparr> = ed"
  then have "commands (ed\<lparr>commands := x # commands ed\<rparr>) = commands ed"
    by (rule arg_cong)
  then show False by simp
qed

lemma flag_set_iff: "truthy (referenceCountCodeLens caps) \<longleftrightarrow> advertisesFlag caps"
  by (auto simp add: referenceCountCodeLens_def truthy_iff split: option.splits)

text \<open>
  Claim C8. The server's capabilities contain the flag when their experimental part is
  there and has the property \<open>referenceCountCodeLens\<close> with a value that is not falsy.
  \<open>initialize\<close> returns without an error and with nothing changed exactly when the
  capabilities do not contain the flag: no experimental capabilities, no such property,
  or a falsy value. When they contain it, \<open>initialize\<close> registers the command
  \<open>client.showReferences\<close> with its handler, in the editor and in its own list, if the
  identifier is free, and throws the editor's error if it is taken. After that
  registration, invoking \<open>client.showReferences\<close> with a position and a context, while
  a document is active, the client has a reference provider for it and the provider
  answers with locations, makes exactly two calls in this order: \<open>provideReferences\<close>
  for the active document with that position and the context's \<open>includeDeclaration\<close>,
  then \<open>editor.action.showReferences\<close> with the document's URI, the same position and
  the returned locations.
\<close>

theorem show_references_feature:
  "(initialize caps this ed = Inr (this, ed) \<longleftrightarrow> \<not> advertisesFlag caps) \<and>
   (advertisesFlag caps \<and> ''client.showReferences'' \<notin> fst ` set (commands ed) \<longrightarrow>
      initialize caps this ed =
        Inr (this\<lparr>registeredCommands := registeredCommands this @ [''client.showReferences'']\<rparr>,
             ed\<lparr>commands := (''client.showReferences'', ShowRefs) # commands ed\<rparr>)) \<and>
   (advertisesFlag caps \<and> ''client.showReferences'' \<in> fst ` set (commands ed) \<longrightarrow>
      (\<exists>err. initialize caps this ed = Inl err)) \<and>
   (advertisesFlag caps \<and> initialize caps this ed = Inr (this', ed') \<and>
    activeTextEditor ed' = Some doc \<and> referenceProvider ed' doc = Some provide \<and>
    provide doc \<lparr>line = line pos, character = character pos\<rparr>
      \<lparr>includeDeclaration = includeDeclaration refCtx\<rparr> = Inr locations \<longrightarrow>
      snd (invokeCommand ed' ''client.showReferences'' pos refCtx) =
        [ProvideReferences doc \<lparr>line = line pos, character = character pos\<rparr>
           \<lparr>includeDeclaration = includeDeclaration refCtx\<rparr>,
         ExecuteCommand ''editor.action.showReferences'' (uri doc)
           \<lparr>line = line pos, character = character pos\<rparr> locations])"
proof (intro conjI)
  show "initialize caps this ed = Inr (this, ed) \<longleftrightarrow> \<not> advertisesFlag caps"
    unfolding flag_set_iff [symmetric]
    by (auto simp add: initialize_def registerCommand_def commands_changed
        split: sum.splits if_splits)
next
  show "advertisesFlag caps \<and> ''client.showReferences'' \<notin> fst ` set (commands ed) \<longrightarrow>
      initialize caps this ed =
        Inr (this\<lparr>registeredCommands := registeredCommands this @ [''client.showReferences'']\<rparr>,
             ed\<lparr>commands := (''client.showReferences'', ShowRefs) # commands ed\<rparr>)"
    unfolding flag_set_iff [symmetric]
    by (simp add: initialize_def registerCommand_def showReferencesCommandId_def)
next
  show "advertisesFlag caps \<and> ''client.showReferences'' \<in> fst ` set (commands ed) \<longrightarrow>
      (\<exists>err. initialize caps this ed = Inl err)"
    unfolding flag_set_iff [symmetric]
    by (simp add: initialize_def registerCommand_def showReferencesCommandId_def)
next
  show "advertisesFlag caps \<and> initialize caps this ed = Inr (this', ed') \<and>
    activeTextEditor ed' = Some doc \<and> referenceProvider ed' doc = Some provide \<and>
    provide doc \<lparr>line = line pos, character = character pos\<rparr>
      \<lparr>includeDeclaration = includeDeclaration refCtx\<rparr> = Inr locations \<longrightarrow>
      snd (invokeCommand ed' ''client.showReferences'' pos refCtx) =
        [ProvideReferences doc \<lparr>line = line pos, character = character pos\<rparr>
           \<lparr>includeDeclaration = includeDeclaration refCtx\<rparr>,
         ExecuteCommand ''editor.action.showReferences'' (uri doc)
           \<lparr>line = line pos, character = character pos\<rparr> locations]"
    unfolding flag_set_iff [symmetric]
    by (auto simp add: initialize_def registerCommand_def showReferencesCommandId_def
        invokeCommand_def showRefs_def Let_def split: if_splits)
qed

theorem show_references_feature_witness:
  "initialize \<lparr>experimental = None\<rparr> \<lparr>registeredCommands = []\<rparr>
     \<lparr>commands = [], activeTextEditor = Some \<lparr>uri = ''file:///main.tf''\<rparr>,
      referenceProvider = \<lambda>doc. Some (\<lambda>doc p c.
         Inr [(''file:///vars.tf'', \<lparr>line = 7, character = 0\<rparr>)]),
      executeCommand = \<lambda>c u p ls. None\<rparr> =
     Inr (\<lparr>registeredCommands = []\<rparr>,
          \<lparr>commands = [], activeTextEditor = Some \<lparr>uri = ''file:///main.tf''\<rparr>,
           referenceProvider = \<lambda>doc. Some (\<lambda>doc p c.
              Inr [(''file:///vars.tf'', \<lparr>line = 7, character = 0\<rparr>)]),
           executeCommand = \<lambda>c u p ls. None\<rparr>) \<and>
   initialize \<lparr>experimental = Some []\<rparr> \<lparr>registeredCommands = []\<rparr>
     \<lparr>commands = [], activeTextEditor = Some \<lparr>uri = ''file:///main.tf''\<rparr>,
      referenceProvider = \<lambda>doc. Some (\<lambda>doc p c.
         Inr [(''file:///vars.tf'', \<lparr>line = 7, character = 0\<rparr>)]),
      executeCommand = \<lambda>c u p ls. None\<rparr> =
     Inr (\<lparr>registeredCommands = []\<rparr>,
          \<lparr>commands = [], activeTextEditor = Some \<lparr>uri = ''file:///main.tf''\<rparr>,
           referenceProvider = \<lambda>doc. Some (\<lambda>doc p c.
              Inr [(''file:///vars.tf'', \<lparr>line = 7, character = 0\<rparr>)]),
           executeCommand = \<lambda>c u p ls. None\<rparr>) \<and>
   initialize \<lparr>experimental = Some [(''referenceCountCodeLens'', JBool False)]\<rparr>
     \<lparr>registeredCommands = []\<rparr>
     \<lparr>commands = [], activeTextEditor = Some \<lparr>uri = ''file:///main.tf''\<rparr>,
      referenceProvider = \<lambda>doc. Some (\<lambda>doc p c.
         Inr [(''file:///vars.tf'', \<lparr>line = 7, character = 0\<rparr>)]),
      executeCommand = \<lambda>c u p ls. None\<rparr> =
     Inr (\<lparr>registeredCommands = []\<rparr>,
          \<lparr>commands = [], activeTextEditor = Some \<lparr>uri = ''file:///main.tf''\<rparr>,
           referenceProvider = \<lambda>doc. Some (\<lambda>doc p c.
              Inr [(''file:///vars.tf'', \<lparr>line = 7, character = 0\<rparr>)]),
           executeCommand = \<lambda>c u p ls. None\<rparr>) \<and>
   initialize \<lparr>experimental = Some [(''referenceCountCodeLens'', JBool True)]\<rparr>
     \<lparr>registeredCommands = []\<rparr>
     \<lparr>commands = [], activeTextEditor = Some \<lparr>uri = ''file:///main.tf''\<rparr>,
      referenceProvider = \<lambda>doc. Some (\<lambda>doc p c.
         Inr [(''file:///vars.tf'', \<lparr>line = 7, character = 0\<rparr>)]),
      executeCommand = \<lambda>c u p ls. None\<rparr> =
     Inr (\<lparr>registeredCommands = [''client.showReferences'']\<rparr>,
          \<lparr>commands = [(''client.showReferences'', ShowRefs)],
           activeTextEditor = Some \<lparr>uri = ''file:///main.tf''\<rparr>,
           referenceProvider = \<lambda>doc. Some (\<lambda>doc p c.
              Inr [(''file:///vars.tf'', \<lparr>line = 7, character = 0\<rparr>)]),
           executeCommand = \<lambda>c u p ls. None\<rparr>) \<and>
   snd (invokeCommand
     \<lparr>commands = [(''client.showReferences'', ShowRefs)],
      activeTextEditor = Some \<lparr>uri = ''file:///main.tf''\<rparr>,
      referenceProvider = \<lambda>doc. Some (\<lambda>doc p c.
         Inr [(''file:///vars.tf'', \<lparr>line = 7, character = 0\<rparr>)]),
      executeCommand = \<lambda>c u p ls. None\<rparr>
     ''client.showReferences'' \<lparr>line = 3, character = 9\<rparr> \<lparr>includeDeclaration = False\<rparr>) =
     [ProvideReferences \<lparr>uri = ''file:///main.tf''\<rparr> \<lparr>line = 3, character = 9\<rparr>
        \<lparr>includeDeclaration = False\<rparr>,
      ExecuteCommand ''editor.action.showReferences'' ''file:///main.tf''
        \<lparr>line = 3, character = 9\<rparr> [(''file:///vars.tf'', \<lparr>line = 7, character = 0\<rparr>)]]"
proof -
  let ?prov = "\<lambda>(doc :: TextDocument) (p :: Position) (c :: RefContext).
      (Inr [(''file:///vars.tf'', \<lparr>line = 7, character = 0\<rparr>)] :: js_error + Location list)"
  let ?ed = "\<lparr>commands = [], activeTextEditor = Some \<lparr>uri = ''file:///main.tf''\<rparr>,
      referenceProvider = \<lambda>doc. Some ?prov, executeCommand = \<lambda>c u p ls. None\<rparr>"
  let ?ed' = "\<lparr>commands = [(''client.showReferences'', ShowRefs)],
      activeTextEditor = Some \<lparr>uri = ''file:///main.tf''\<rparr>,
      referenceProvider = \<lambda>doc. Some ?prov, executeCommand = \<lambda>c u p ls. None\<rparr>"
  let ?f = "\<lparr>registeredCommands = []\<rparr>"
  let ?f' = "\<lparr>registeredCommands = [''client.showReferences'']\<rparr>"
  let ?on = "\<lparr>experimental = Some [(''referenceCountCodeLens'', JBool True)]\<rparr>"
  have off1: "\<not> advertisesFlag \<lparr>experimental = None\<rparr>"
    and off2: "\<not> advertisesFlag \<lparr>experimental = Some []\<rparr>"
    and off3: "\<not> advertisesFlag \<lparr>experimental = Some [(''referenceCountCodeLens'', JBool False)]\<rparr>"
    and on: "advertisesFlag ?on"
    by simp_all
  have free: "''client.showReferences'' \<notin> fst ` set (commands ?ed)"
    by simp
  have a1: "initialize \<lparr>experimental = None\<rparr> ?f ?ed = Inr (?f, ?ed)"
    using show_references_feature [of "\<lparr>experimental = None\<rparr>" ?f ?ed] off1 by blast
  have a2: "initialize \<lparr>experimental = Some []\<rparr> ?f ?ed = Inr (?f, ?ed)"
    using show_references_feature [of "\<lparr>experimental = Some []\<rparr>" ?f ?ed] off2 by blast
  have a3: "initialize \<lparr>experimental = Some [(''referenceCountCodeLens'', JBool False)]\<rparr>
      ?f ?ed = Inr (?f, ?ed)"
    using show_references_feature
      [of "\<lparr>experimental = Some [(''referenceCountCodeLens'', JBool False)]\<rparr>" ?f ?ed] off3
    by blast
  have "initialize ?on ?f ?ed =
      Inr (?f\<lparr>registeredCommands := registeredCommands ?f @ [''client.showReferences'']\<rparr>,
           ?ed\<lparr>commands := (''client.showReferences'', ShowRefs) # commands ?ed\<rparr>)"
    using show_references_feature [of ?on ?f ?ed] on free by blast
  then have b: "initialize ?on ?f ?ed = Inr (?f', ?ed')"
    by simp
  have c: "snd (invokeCommand ?ed' ''client.showReferences'' \<lparr>line = 3, character = 9\<rparr>
        \<lparr>includeDeclaration = False\<rparr>) =
      [ProvideReferences \<lparr>uri = ''file:///main.tf''\<rparr> \<lparr>line = 3, character = 9\<rparr>
         \<lparr>includeDeclaration = False\<rparr>,
       ExecuteCommand ''editor.action.showReferences'' ''file:///main.tf''
         \<lparr>line = 3, character = 9\<rparr> [(''file:///vars.tf'', \<lparr>line = 7, character = 0\<rparr>)]]"
    using show_references_feature [where caps = ?on and this = ?f and ed = ?ed
        and this' = ?f' and ed' = ?ed' and doc = "\<lparr>uri = ''file:///main.tf''\<rparr>"
        and provide = ?prov and pos = "\<lparr>line = 3, character = 9\<rparr>"
        and refCtx = "\<lparr>includeDeclaration = False\<rparr>"
        and locations = "[(''file:///vars.tf'', \<lparr>line = 7, character = 0\<rparr>)]"] on b
    by simp
  from a1 a2 a3 b c show ?thesis by blast
qed

section \<open>Properties of stopping the client\<close>

text \<open>
  Claim C9. \<open>stopIfRunning\<close> never rejects, whatever the graceful stop and the kill do.
  When there is a client whose graceful \<open>stop\<close> fails (the server does not implement
  shutdown) and whose server process is still known afterwards, the events are, in this
  order: the graceful stop was called, the process was killed by its identifier with
  signal 9, and only then \<open>isRunning\<close> was set to false; this holds also when the kill
  throws.
\<close>

theorem stopIfRunning_tolerates_failed_stop:
  "fst (stopIfRunning env this) = None \<and>
   (client this = Ref langClient \<and> stop env langClient = (Some err, langClient1) \<and>
    serverProcess langClient1 = Some pid \<longrightarrow>
      stopIfRunning env this =
        (None, \<lparr>client = Ref langClient1, isRunning = False\<rparr>,
         [StopCalled, KillCalled pid 9, IsRunningAssigned False]))"
  by (auto simp add: stopIfRunning_def forceKill_def split: js_ref.splits prod.splits
      option.splits)

theorem stopIfRunning_tolerates_failed_stop_witness:
  "stopIfRunning
     \<lparr>stop = \<lambda>c. (Some (ex_error ''Unhandled method shutdown''), c),
      kill = \<lambda>pid signal. None\<rparr>
     \<lparr>client = Ref \<lparr>serverProcess = Some 4242\<rparr>, isRunning = True\<rparr> =
     (None, \<lparr>client = Ref \<lparr>serverProcess = Some 4242\<rparr>, isRunning = False\<rparr>,
      [StopCalled, KillCalled 4242 9, IsRunningAssigned False])"
  using stopIfRunning_tolerates_failed_stop
      [where env = "\<lparr>stop = \<lambda>c. (Some (ex_error ''Unhandled method shutdown''), c),
                      kill = \<lambda>pid signal. None\<rparr>"
         and this = "\<lparr>client = Ref \<lparr>serverProcess = Some 4242\<rparr>, isRunning = True\<rparr>"
         and langClient = "\<lparr>serverProcess = Some 4242\<rparr>"
         and err = "ex_error ''Unhandled method shutdown''"
         and ?langClient1.0 = "\<lparr>serverProcess = Some 4242\<rparr>" and pid = 4242]
  by simp

end
